theory Spec2Isabelle
  imports Complex_Main "HOL-Library.Char_ord" "HOL-Library.List_Lexorder"
begin

section \<open>Utils/Filters.ts: the filter compiler\<close>

text \<open>
  A filter object is modelled by the list of its entries in the order
  \<^verbatim>\<open>Object.entries\<close> enumerates them; a falsy filter argument
  (\<^verbatim>\<open>null\<close>, \<^verbatim>\<open>undefined\<close>) is \<open>None\<close>.
  The values are of any type. A typeorm \<^verbatim>\<open>FindOperator\<close> is the
  operator's constructor applied to the value.
\<close>

datatype 'v FindOperator =
    Equal 'v
  | Not_op 'v
  | MoreThan 'v
  | MoreThanOrEqual 'v
  | LessThan 'v
  | LessThanOrEqual 'v
  | In 'v

text \<open>
  \<^verbatim>\<open>s.split("_")\<close>: the segments of \<open>s\<close> between the separators; never
  the empty list (the empty string gives one empty segment).
\<close>

fun split :: "char \<Rightarrow> string \<Rightarrow> string list" where
  "split c [] = [[]]"
| "split c (x # xs) =
     (if x = c then [] # split c xs
      else (x # hd (split c xs)) # tl (split c xs))"

text \<open>
  \<^verbatim>\<open>const [field, operator] = filterKey.split("_")\<close>: the first segment, and
  the second one when there is one (\<^verbatim>\<open>undefined\<close> otherwise).
\<close>

definition fieldOf :: "string \<Rightarrow> string" where
  "fieldOf filterKey = hd (split CHR ''_'' filterKey)"

definition operatorOf :: "string \<Rightarrow> string option" where
  "operatorOf filterKey =
     (case tl (split CHR ''_'' filterKey) of [] \<Rightarrow> None | operator # _ \<Rightarrow> Some operator)"

definition mapFilterOperatorTypeorm :: "string option \<Rightarrow> 'v \<Rightarrow> 'v FindOperator" where
  "mapFilterOperatorTypeorm operator =
     (if operator = Some ''eq'' then Equal
      else if operator = Some ''ne'' then Not_op
      else if operator = Some ''gt'' then MoreThan
      else if operator = Some ''gte'' then MoreThanOrEqual
      else if operator = Some ''lt'' then LessThan
      else if operator = Some ''lte'' then LessThanOrEqual
      else if operator = Some ''in'' then In
      else Equal)"

text \<open>
  \<^verbatim>\<open>processFilters\<close>: the result is one object keyed by field name, written
  entry after entry; a later write to a field replaces the earlier one.
\<close>

fun processFilters_loop ::
  "(string \<times> 'v) list \<Rightarrow> (string \<rightharpoonup> 'v FindOperator) \<Rightarrow> (string \<rightharpoonup> 'v FindOperator)" where
  "processFilters_loop [] typeormFilters = typeormFilters"
| "processFilters_loop ((filterKey, v) # rest) typeormFilters =
     processFilters_loop rest
       (typeormFilters(fieldOf filterKey \<mapsto> mapFilterOperatorTypeorm (operatorOf filterKey) v))"

definition processFilters :: "(string \<times> 'v) list option \<Rightarrow> (string \<rightharpoonup> 'v FindOperator)" where
  "processFilters filters =
     (case filters of None \<Rightarrow> Map.empty | Some entries \<Rightarrow> processFilters_loop entries Map.empty)"

text \<open>
  \<^verbatim>\<open>processSelectiveFilters\<close>: the result is an array of one-key objects
  \<^verbatim>\<open>{[field]: operator(value)}\<close>, here pairs, pushed entry after entry when the
  field is in the allow-list.
\<close>

fun processSelectiveFilters_loop ::
  "(string \<times> 'v) list \<Rightarrow> string list \<Rightarrow> (string \<times> 'v FindOperator) list
     \<Rightarrow> (string \<times> 'v FindOperator) list" where
  "processSelectiveFilters_loop [] allowed typeormFilters = typeormFilters"
| "processSelectiveFilters_loop ((filterKey, v) # rest) allowed typeormFilters =
     (if fieldOf filterKey \<in> set allowed
      then processSelectiveFilters_loop rest allowed
             (typeormFilters @ [(fieldOf filterKey, mapFilterOperatorTypeorm (operatorOf filterKey) v)])
      else processSelectiveFilters_loop rest allowed typeormFilters)"

definition processSelectiveFilters ::
  "(string \<times> 'v) list option \<Rightarrow> string list \<Rightarrow> (string \<times> 'v FindOperator) list" where
  "processSelectiveFilters filters allowed =
     (case filters of None \<Rightarrow> [] | Some entries \<Rightarrow> processSelectiveFilters_loop entries allowed [])"

definition offerFiltersDbFields :: "string list" where
  "offerFiltersDbFields = [''price'']"

definition processOfferFilters :: "(string \<times> 'v) list option \<Rightarrow> (string \<times> 'v FindOperator) list" where
  "processOfferFilters filters = processSelectiveFilters filters offerFiltersDbFields"

definition generativeFiltersDbFields :: "string list" where
  "generativeFiltersDbFields = [''price'', ''supply'']"

definition processGenerativeFilters :: "(string \<times> 'v) list option \<Rightarrow> (string \<times> 'v FindOperator) list" where
  "processGenerativeFilters filters = processSelectiveFilters filters generativeFiltersDbFields"

definition userCollectionFiltersDbFields :: "string list" where
  "userCollectionFiltersDbFields = [''assigned'', ''createdAt'', ''assignedAt'']"

definition processUserCollectionFilters :: "(string \<times> 'v) list option \<Rightarrow> (string \<times> 'v FindOperator) list" where
  "processUserCollectionFilters filters = processSelectiveFilters filters userCollectionFiltersDbFields"


section \<open>DataLoaders/Articles.ts and DataLoaders/MarketStats.ts: batch functions over ids\<close>


record ArticleLedger =
  ledger_articleId :: int
  ledger_owner :: string
  ledger_amount :: int

record ArticleRevision =
  revision_articleId :: int
  revision_iteration :: int

record Split =
  split_id :: int
  split_pct :: int
  split_userId :: string
  split_articleId :: int

record ArticleGenerativeToken =
  mention_articleId :: int
  mention_generativeTokenId :: int






section \<open>DataLoaders/GenTokens.ts\<close>

record GenerativeToken =
  token_id :: int
  token_name :: string







subsection \<open>batchGenTokObjkt: one query for a batch of composite keys\<close>

datatype JsError = TypeError

datatype FeatureValue = FString string | FNumber int | FBoolean bool

record Trait =
  trait_name :: string
  trait_value :: FeatureValue

record Offer =
  offer_price :: int
  offer_createdAt :: int

record Objkt =
  objkt_id :: int
  objkt_issuerId :: int
  objkt_features :: "Trait list option"
  objkt_offer :: "Offer option"

text \<open>
  The key of a load: the token's id and the shape of the query. A filter value
  is JSON; \<^verbatim>\<open>filters.offer_ne === null\<close> holds when the property is there with the
  value \<^verbatim>\<open>null\<close>. A missing or null field of the key is \<open>None\<close>.
\<close>

datatype FilterValue = VNull | VBool bool | VNumber int | VString string

datatype SortDir = ASC | DESC

record FeatureFilter =
  ff_name :: string
  ff_values :: "FeatureValue list"

record GenTokObjktKey =
  key_id :: int
  key_filters :: "(string \<times> FilterValue) list option"
  key_featureFilters :: "FeatureFilter list option"
  key_sort :: "(string \<times> SortDir) list option"
  key_take :: "nat option"
  key_skip :: "nat option"

text \<open>
  The query the builder assembles. The conditions of \<^verbatim>\<open>where\<close> and
  \<^verbatim>\<open>andWhere\<close> are joined by AND; the conditions \<^verbatim>\<open>orWhere\<close> adds inside
  one \<^verbatim>\<open>Brackets\<close> are joined by OR.
\<close>

datatype WhereExpr =
    IssuerIn "int list"
  | FeaturesContain Trait
  | Brackets "WhereExpr list"

record ObjktQuery =
  q_wheres :: "WhereExpr list"
  q_innerJoinOffer :: bool
  q_orderBy :: "(string \<times> SortDir \<times> bool) list"
  q_take :: "nat option"
  q_skip :: "nat option"
  q_cache :: "nat option"

text \<open>
  Modelled from the spec: \<^verbatim>\<open>processGentkFeatureFilters\<close> of Utils/Filters.ts is not
  part of the sources at hand. The spec has, for each trait name of the selection,
  one group with one filter for each selected value; a filter is the JSON
  \<^verbatim>\<open>[{name, value}]\<close> that \<^verbatim>\<open>objkt.features::jsonb @> filter\<close> looks for.
\<close>

definition processGentkFeatureFilters :: "FeatureFilter list \<Rightarrow> Trait list list" where
  "processGentkFeatureFilters featureFilters =
     map (\<lambda>f. map (\<lambda>v. \<lparr>trait_name = ff_name f, trait_value = v\<rparr>) (ff_values f)) featureFilters"

text \<open>
  The loop over the processed groups: one \<^verbatim>\<open>andWhere(new Brackets(...))\<close> for
  each group \<open>i\<close>, holding one \<^verbatim>\<open>orWhere\<close> for each filter \<open>j\<close> of the group.
\<close>

fun orWhere_loop :: "Trait list \<Rightarrow> WhereExpr list \<Rightarrow> WhereExpr list" where
  "orWhere_loop [] qb = qb"
| "orWhere_loop (flt # filterGroup) qb = orWhere_loop filterGroup (qb @ [FeaturesContain flt])"

fun andWhere_loop :: "Trait list list \<Rightarrow> WhereExpr list \<Rightarrow> WhereExpr list" where
  "andWhere_loop [] wheres = wheres"
| "andWhere_loop (filterGroup # processed) wheres =
     andWhere_loop processed (wheres @ [Brackets (orWhere_loop filterGroup [])])"

definition orderOf :: "string \<times> SortDir \<Rightarrow> string \<times> SortDir \<times> bool" where
  "orderOf s =
     (if fst s = ''offerPrice'' then (''offer.price'', snd s, True)
      else if fst s = ''offerCreatedAt'' then (''offer.createdAt'', snd s, True)
      else (''objkt.'' @ fst s, snd s, True))"

definition objktQuery :: "GenTokObjktKey \<Rightarrow> int list \<Rightarrow> ObjktQuery" where
  "objktQuery first ids =
     (let filters = key_filters first;
          featureFilters = key_featureFilters first;
          sorts = (case key_sort first of None \<Rightarrow> [] | Some s \<Rightarrow> s);
          sorts = (if length sorts = 0 then [(''id'', DESC)] else sorts);
          wheres = [IssuerIn ids];
          wheres = (case featureFilters of
                      None \<Rightarrow> wheres
                    | Some ffs \<Rightarrow>
                        if length ffs > 0 then andWhere_loop (processGentkFeatureFilters ffs) wheres
                        else wheres)
      in \<lparr>q_wheres = wheres,
          q_innerJoinOffer =
            (case filters of None \<Rightarrow> False | Some fs \<Rightarrow> map_of fs ''offer_ne'' = Some VNull),
          q_orderBy = map orderOf sorts,
          q_take = key_take first,
          q_skip = key_skip first,
          q_cache = None\<rparr>)"

text \<open>
  \<^verbatim>\<open>getMany\<close> is the store running the query. Reading \<^verbatim>\<open>genIds[0].filters\<close>
  of an empty batch throws a TypeError.
\<close>

definition batchGenTokObjkt ::
  "(ObjktQuery \<Rightarrow> Objkt list) \<Rightarrow> GenTokObjktKey list \<Rightarrow> JsError + Objkt list list" where
  "batchGenTokObjkt getMany genIds =
     (case genIds of
        [] \<Rightarrow> Inl TypeError
      | first # _ \<Rightarrow>
          (let ids = map key_id genIds;
               objkts = getMany (objktQuery first ids)
           in Inr (map (\<lambda>id. filter (\<lambda>objkt. objkt_issuerId objkt = id) objkts) ids)))"

text \<open>
  What the conditions of a query mean on one row:
  \<^verbatim>\<open>features @> [{name, value}]\<close> holds when the row's features (a JSON array of
  \<^verbatim>\<open>{name, value}\<close> objects, or NULL) have an element with this name and value.
  A \<^verbatim>\<open>Brackets\<close> to which no condition was added is rendered as
  \<^verbatim>\<open>1=1\<close> and holds for every row.
\<close>

fun evalWhere :: "WhereExpr \<Rightarrow> Objkt \<Rightarrow> bool" where
  "evalWhere (IssuerIn ids) objkt = (objkt_issuerId objkt \<in> set ids)"
| "evalWhere (FeaturesContain flt) objkt =
     (case objkt_features objkt of None \<Rightarrow> False | Some traits \<Rightarrow> flt \<in> set traits)"
| "evalWhere (Brackets ors) objkt =
     (if ors = [] then True else list_ex (\<lambda>e. evalWhere e objkt) ors)"

definition whereMatches :: "ObjktQuery \<Rightarrow> Objkt \<Rightarrow> bool" where
  "whereMatches query objkt = list_all (\<lambda>e. evalWhere e objkt) (q_wheres query)"

text \<open>
  The earlier version of the loader (the unnamed earlier file of the data loaders): no feature
  filters and no pagination, the order without NULLS LAST, a cache of one minute;
  \<^verbatim>\<open>Object.keys(sorts)\<close> throws a TypeError when the key has no sort.
\<close>

definition batchGenTokObjkt_v0 ::
  "(ObjktQuery \<Rightarrow> Objkt list) \<Rightarrow> GenTokObjktKey list \<Rightarrow> JsError + Objkt list list" where
  "batchGenTokObjkt_v0 getMany genIds =
     (case genIds of
        [] \<Rightarrow> Inl TypeError
      | first # _ \<Rightarrow>
          (case key_sort first of
             None \<Rightarrow> Inl TypeError
           | Some sorts \<Rightarrow>
               (let ids = map key_id genIds;
                    filters = key_filters first;
                    sorts = (if length sorts = 0 then [(''id'', DESC)] else sorts);
                    query = \<lparr>q_wheres = [IssuerIn ids],
                      q_innerJoinOffer =
                        (case filters of None \<Rightarrow> False
                         | Some fs \<Rightarrow> map_of fs ''offer_ne'' = Some VNull),
                      q_orderBy = map (\<lambda>s. (fst (orderOf s), fst (snd (orderOf s)), False)) sorts,
                      q_take = None,
                      q_skip = None,
                      q_cache = Some 60000\<rparr>;
                    objkts = getMany query
                in Inr (map (\<lambda>id. filter (\<lambda>objkt. objkt_issuerId objkt = id) objkts) ids))))"

subsection \<open>batchGenTokMarketStatsHistory\<close>

record MarketStatsHistory =
  hist_tokenId :: int
  hist_from :: int
  hist_to :: int
  hist_floor :: "int option"

record HistoryParam =
  param_id :: int
  param_from :: int
  param_to :: int

text \<open>
  The query: the rows of the requested tokens with \<^verbatim>\<open>from >= :from\<close> and
  \<^verbatim>\<open>to < :to\<close>, ordered by \<^verbatim>\<open>from\<close> ascending. The dates are
  milliseconds. Destructuring \<^verbatim>\<open>params[0]\<close> of an empty batch throws a TypeError.
\<close>

definition histQuery :: "MarketStatsHistory list \<Rightarrow> int list \<Rightarrow> int \<Rightarrow> int \<Rightarrow> MarketStatsHistory list" where
  "histQuery histTable ids from to =
     sort_key hist_from
       (filter (\<lambda>h. hist_tokenId h \<in> set ids \<and> hist_from h \<ge> from \<and> hist_to h < to) histTable)"

definition batchGenTokMarketStatsHistory ::
  "MarketStatsHistory list \<Rightarrow> HistoryParam list \<Rightarrow> JsError + MarketStatsHistory list list" where
  "batchGenTokMarketStatsHistory histTable params =
     (case params of
        [] \<Rightarrow> Inl TypeError
      | first # _ \<Rightarrow>
          (let from = param_from first;
               to = param_to first;
               ids = map param_id params;
               hists = histQuery histTable ids from to
           in Inr (map (\<lambda>id. filter (\<lambda>hist. hist_tokenId hist = id) hists) ids)))"


section \<open>The market statistics cache: batchGenTokMarketStats with its recompute pass\<close>

text \<open>
  The earlier version of the data loaders recomputes the stale records of a batch.
  Prices are integers (mutez): \<^verbatim>\<open>parseInt\<close> of a column of decimal digits.
  Dates are milliseconds since the epoch. The median of the aggregate query
  (\<^verbatim>\<open>PERCENTILE_CONT(0.5)\<close>) is a rational number.
\<close>

record MarketStats =
  ms_id :: int
  ms_tokenId :: int
  ms_floor :: "int option"
  ms_median :: "rat option"
  ms_totalListing :: int
  ms_highestSold :: "int option"
  ms_lowestSold :: "int option"
  ms_primTotal :: int
  ms_secVolumeTz :: int
  ms_secVolumeNb :: int
  ms_secVolumeTz24 :: int
  ms_secVolumeNb24 :: int
  ms_requiresUpdate :: bool
  ms_updatedAt :: int

text \<open>
  Modelled from the spec: the constructor of the entity \<^verbatim>\<open>MarketStats\<close> is not part
  of the sources at hand. The spec has a missing row created as a zero-valued record;
  its nullable statistics are null.
\<close>

definition new_MarketStats :: MarketStats where
  "new_MarketStats =
     \<lparr>ms_id = 0, ms_tokenId = 0, ms_floor = None, ms_median = None, ms_totalListing = 0,
      ms_highestSold = None, ms_lowestSold = None, ms_primTotal = 0,
      ms_secVolumeTz = 0, ms_secVolumeNb = 0, ms_secVolumeTz24 = 0, ms_secVolumeNb24 = 0,
      ms_requiresUpdate = False, ms_updatedAt = 0\<rparr>"

text \<open>
  The members of \<^verbatim>\<open>TokenActionType\<close> the loader names, and the others.
\<close>

datatype TokenActionType = OFFER_ACCEPTED | MINTED_FROM | OTHER_ACTION string

record Action =
  act_tokenId :: int
  act_type :: TokenActionType
  act_price :: int
  act_createdAt :: int

record Store =
  marketStatsTable :: "MarketStats list"
  objktTable :: "Objkt list"
  actionTable :: "Action list"

text \<open>The calls to the store, in the order the loader makes them.\<close>

datatype StoreCall =
    FindMarketStats "int list"
  | AggregateOffers "int list"
  | FetchActions "int list" "TokenActionType list"
  | SaveStats MarketStats

text \<open>
  The row of a group of the aggregate query: \<^verbatim>\<open>MIN(offer.price)\<close>, the median,
  \<^verbatim>\<open>COUNT(offer)\<close> and the token's id.
\<close>

record ComputeStat =
  cs_floor :: int
  cs_median :: rat
  cs_totalListing :: int
  cs_id :: int

definition percentile_cont_half :: "int list \<Rightarrow> rat" where
  "percentile_cont_half ordered =
     (let n = length ordered
      in (of_int (ordered ! ((n - 1) div 2)) + of_int (ordered ! (n div 2))) / 2)"

text \<open>
  The aggregate query: the objkts that have an offer and whose issuer is among the
  ids, grouped by issuer; no group, so no row, for a token without such an objkt.
\<close>

definition offerPricesOf :: "Objkt list \<Rightarrow> int \<Rightarrow> int list" where
  "offerPricesOf objkts tokenId =
     map offer_price (List.map_filter objkt_offer (filter (\<lambda>ob. objkt_issuerId ob = tokenId) objkts))"

definition computeStatsQuery :: "Objkt list \<Rightarrow> int list \<Rightarrow> ComputeStat list" where
  "computeStatsQuery objkts recomputeIDs =
     (let rows = filter (\<lambda>ob. objkt_offer ob \<noteq> None \<and> objkt_issuerId ob \<in> set recomputeIDs) objkts
      in map (\<lambda>tokenId.
                (let prices = offerPricesOf rows tokenId
                 in \<lparr>cs_floor = fold min (tl prices) (hd prices),
                     cs_median = percentile_cont_half (sort prices),
                     cs_totalListing = int (length prices),
                     cs_id = tokenId\<rparr>))
             (remdups (map objkt_issuerId rows)))"

definition actionsQuery :: "Action list \<Rightarrow> int list \<Rightarrow> TokenActionType list \<Rightarrow> Action list" where
  "actionsQuery actions ids types =
     filter (\<lambda>a. act_tokenId a \<in> set ids \<and> act_type a \<in> set types) actions"

text \<open>
  The first loop: the ids whose record is there, clean and at most one hour old go to
  \<open>computed\<close>, the others to \<open>recompute\<close> (a missing record is created).
\<close>

fun partition_loop ::
  "MarketStats list \<Rightarrow> int \<Rightarrow> int list \<Rightarrow> MarketStats list \<times> MarketStats list
     \<Rightarrow> MarketStats list \<times> MarketStats list" where
  "partition_loop stats now [] (computed, recompute) = (computed, recompute)"
| "partition_loop stats now (tid # genIds) (computed, recompute) =
     (case List.find (\<lambda>stat. ms_tokenId stat = tid) stats of
        None \<Rightarrow>
          partition_loop stats now genIds
            (computed,
             recompute @ [new_MarketStats\<lparr>ms_id := tid, ms_tokenId := tid, ms_requiresUpdate := True\<rparr>])
      | Some stat \<Rightarrow>
          if ms_requiresUpdate stat \<or> now - ms_updatedAt stat > 3600000
          then partition_loop stats now genIds (computed, recompute @ [stat])
          else partition_loop stats now genIds (computed @ [stat], recompute))"

text \<open>The body of the second loop, for one record to recompute.\<close>

definition recomputeStat :: "ComputeStat list \<Rightarrow> Action list \<Rightarrow> int \<Rightarrow> MarketStats \<Rightarrow> MarketStats" where
  "recomputeStat computeStats actions lastDay stat0 =
     (let stat = (case List.find (\<lambda>s. cs_id s = ms_tokenId stat0) computeStats of
                    None \<Rightarrow> stat0
                  | Some computeStat \<Rightarrow>
                      stat0\<lparr>ms_floor := Some (cs_floor computeStat),
                            ms_median := Some (cs_median computeStat),
                            ms_totalListing := cs_totalListing computeStat\<rparr>);
          filtActions = filter (\<lambda>act. act_tokenId act = ms_tokenId stat) actions;
          filtActionsPr = filter (\<lambda>act. act_type act = MINTED_FROM) filtActions;
          filtActionsSc = filter (\<lambda>act. act_type act = OFFER_ACCEPTED) filtActions;
          highest = foldl (\<lambda>acc act. if act_price act > acc then act_price act else acc) 0 filtActionsSc;
          lowest = foldl (\<lambda>acc act. if act_price act < acc then act_price act else acc)
                     9999999999999 filtActionsSc;
          filtActionsSc24 = filter (\<lambda>act. act_createdAt act > lastDay) filtActionsSc
      in stat\<lparr>ms_highestSold := (if highest = 0 then None else Some highest),
              ms_lowestSold := (if lowest = 9999999999999 then None else Some lowest),
              ms_primTotal := foldl (\<lambda>acc act. acc + act_price act) 0 filtActionsPr,
              ms_secVolumeTz := foldl (\<lambda>acc act. acc + act_price act) 0 filtActionsSc,
              ms_secVolumeNb := int (length filtActionsSc),
              ms_secVolumeTz24 := foldl (\<lambda>acc act. acc + act_price act) 0 filtActionsSc24,
              ms_secVolumeNb24 := int (length filtActionsSc24),
              ms_requiresUpdate := False\<rparr>)"

fun recompute_loop ::
  "ComputeStat list \<Rightarrow> Action list \<Rightarrow> int \<Rightarrow> MarketStats list
     \<Rightarrow> MarketStats list \<times> StoreCall list \<Rightarrow> MarketStats list \<times> StoreCall list" where
  "recompute_loop computeStats actions lastDay [] (computed, calls) = (computed, calls)"
| "recompute_loop computeStats actions lastDay (stat # recompute) (computed, calls) =
     (let stat' = recomputeStat computeStats actions lastDay stat
      in recompute_loop computeStats actions lastDay recompute
           (computed @ [stat'], calls @ [SaveStats stat']))"

text \<open>
  The loader: the records in the order of the ids, and the calls made to the store.
  \<open>now\<close> is the clock when the records are partitioned, \<open>now2\<close> the clock when
  the last day is computed, after the two queries.
\<close>

definition batchGenTokMarketStats ::
  "Store \<Rightarrow> int \<Rightarrow> int \<Rightarrow> int list \<Rightarrow> MarketStats option list \<times> StoreCall list" where
  "batchGenTokMarketStats store now now2 genIds =
     (let stats = filter (\<lambda>s. ms_tokenId s \<in> set genIds) (marketStatsTable store);
          calls = [FindMarketStats genIds];
          part = partition_loop stats now genIds ([], []);
          computed = fst part;
          recompute = snd part;
          result = (if length recompute > 0 then
                    (let recomputeIDs = map ms_tokenId recompute;
                         computeStats = computeStatsQuery (objktTable store) recomputeIDs;
                         actions = actionsQuery (actionTable store) genIds [OFFER_ACCEPTED, MINTED_FROM];
                         lastDay = now2 - 24 * 3600 * 1000
                     in recompute_loop computeStats actions lastDay recompute
                          (computed,
                           calls @ [AggregateOffers recomputeIDs,
                                    FetchActions genIds [OFFER_ACCEPTED, MINTED_FROM]]))
                  else (computed, calls))
      in (map (\<lambda>id. List.find (\<lambda>stat. ms_tokenId stat = id) (fst result)) genIds, snd result))"


section \<open>DataLoaders/GenTokens.ts: the other loaders over ids\<close>









section \<open>Example data\<close>

text \<open>
  A store with three tokens: token 1 has a record marked for update that still holds
  the statistics of one listing, but no offer and no sale any more; token 2 has no
  record, two offers, one sale at price 0 and one mint; token 3 has a clean record
  computed at the time of the request.
\<close>

definition example_store :: Store where
  "example_store =
     \<lparr>marketStatsTable =
        [new_MarketStats\<lparr>ms_id := 1, ms_tokenId := 1, ms_floor := Some 100, ms_median := Some 100,
                          ms_totalListing := 1, ms_requiresUpdate := True\<rparr>,
         new_MarketStats\<lparr>ms_id := 3, ms_tokenId := 3, ms_updatedAt := 5000000\<rparr>],
      objktTable =
        [\<lparr>objkt_id = 10, objkt_issuerId = 2, objkt_features = None,
          objkt_offer = Some \<lparr>offer_price = 7, offer_createdAt = 0\<rparr>\<rparr>,
         \<lparr>objkt_id = 11, objkt_issuerId = 2, objkt_features = None,
          objkt_offer = Some \<lparr>offer_price = 4, offer_createdAt = 0\<rparr>\<rparr>,
         \<lparr>objkt_id = 12, objkt_issuerId = 1, objkt_features = None, objkt_offer = None\<rparr>],
      actionTable =
        [\<lparr>act_tokenId = 2, act_type = OFFER_ACCEPTED, act_price = 0, act_createdAt = 4999000\<rparr>,
         \<lparr>act_tokenId = 2, act_type = MINTED_FROM, act_price = 5, act_createdAt = 4000000\<rparr>]\<rparr>"

text \<open>
  Objkts with features, a store that returns the objkts matching the conditions of a
  query, and keys that select backgrounds red or blue and size small.
\<close>

definition example_objkts :: "Objkt list" where
  "example_objkts =
     [\<lparr>objkt_id = 7, objkt_issuerId = 1,
       objkt_features = Some [\<lparr>trait_name = ''bg'', trait_value = FString ''blue''\<rparr>,
                              \<lparr>trait_name = ''size'', trait_value = FString ''small''\<rparr>],
       objkt_offer = None\<rparr>,
      \<lparr>objkt_id = 8, objkt_issuerId = 1,
       objkt_features = Some [\<lparr>trait_name = ''bg'', trait_value = FString ''red''\<rparr>,
                              \<lparr>trait_name = ''size'', trait_value = FString ''large''\<rparr>],
       objkt_offer = None\<rparr>,
      \<lparr>objkt_id = 9, objkt_issuerId = 2,
       objkt_features = Some [\<lparr>trait_name = ''bg'', trait_value = FString ''red''\<rparr>,
                              \<lparr>trait_name = ''size'', trait_value = FString ''small''\<rparr>],
       objkt_offer = None\<rparr>]"

definition example_getMany :: "ObjktQuery \<Rightarrow> Objkt list" where
  "example_getMany query = filter (whereMatches query) example_objkts"

definition example_key :: "int \<Rightarrow> GenTokObjktKey" where
  "example_key tid =
     \<lparr>key_id = tid, key_filters = None,
      key_featureFilters = Some [\<lparr>ff_name = ''bg'', ff_values = [FString ''red'', FString ''blue'']\<rparr>,
                                 \<lparr>ff_name = ''size'', ff_values = [FString ''small'']\<rparr>],
      key_sort = Some [], key_take = None, key_skip = None\<rparr>"

definition example_hists :: "MarketStatsHistory list" where
  "example_hists =
     [\<lparr>hist_tokenId = 2, hist_from = 50, hist_to = 60, hist_floor = Some 7\<rparr>,
      \<lparr>hist_tokenId = 1, hist_from = 3, hist_to = 5, hist_floor = None\<rparr>]"

section \<open>Lemmas about lists\<close>

lemma find_snoc:
  "List.find P (xs @ [x]) =
     (case List.find P xs of None \<Rightarrow> (if P x then Some x else None) | Some y \<Rightarrow> Some y)"
  by (induction xs) auto

lemma find_filter_implied:
  "v \<in> set ids \<Longrightarrow>
     List.find (\<lambda>r. k r = v) (filter (\<lambda>r. k r \<in> set ids) rows) = List.find (\<lambda>r. k r = v) rows"
  by (induction rows) auto


lemma find_SomeD: "List.find P xs = Some x \<Longrightarrow> P x \<and> x \<in> set xs"
  by (induction xs) (auto split: if_splits)

lemma find_append_case:
  "List.find P (xs @ ys) = (case List.find P xs of None \<Rightarrow> List.find P ys | Some x \<Rightarrow> Some x)"
  by (induction xs) auto

lemma find_map_option:
  "List.find P (map f xs) = map_option f (List.find (\<lambda>x. P (f x)) xs)"
  by (induction xs) auto

lemma find_unique:
  assumes "s \<in> set xs" and "P s" and "\<And>x. x \<in> set xs \<Longrightarrow> P x \<Longrightarrow> x = s"
  shows "List.find P xs = Some s"
proof (cases "List.find P xs")
  case None
  with assms(1,2) show ?thesis by (simp add: find_None_iff)
next
  case (Some y)
  from find_SomeD [OF Some] assms(3) have "y = s" by blast
  with Some show ?thesis by simp
qed

lemma find_exists:
  "y \<in> set xs \<Longrightarrow> P y \<Longrightarrow> \<exists>x. List.find P xs = Some x"
  by (cases "List.find P xs") (auto simp: find_None_iff)



section \<open>The filter compiler\<close>

lemma processSelectiveFilters_loop_eq:
  "processSelectiveFilters_loop entries allowed acc =
     acc @ map (\<lambda>(k, v). (fieldOf k, mapFilterOperatorTypeorm (operatorOf k) v))
             (filter (\<lambda>(k, v). fieldOf k \<in> set allowed) entries)"
  by (induction entries allowed acc rule: processSelectiveFilters_loop.induct) auto

lemma processFilters_loop_eq:
  "processFilters_loop entries m f =
     (case List.find (\<lambda>(k, v). fieldOf k = f) (rev entries) of
        None \<Rightarrow> m f
      | Some (k, v) \<Rightarrow> Some (mapFilterOperatorTypeorm (operatorOf k) v))"
proof (induction entries arbitrary: m)
  case Nil
  then show ?case by simp
next
  case (Cons e entries)
  obtain k v where e: "e = (k, v)" by (cases e)
  show ?case
    unfolding e by (simp add: Cons.IH find_snoc split: option.splits)
qed

text \<open>
  Claim C8. \<^verbatim>\<open>processSelectiveFilters\<close> returns, in the order of the filter
  object's keys, one predicate for each key whose field (the segment before the first
  \<open>_\<close>) is in the allow-list; the other keys are dropped. The operator (the next
  segment) \<open>eq\<close>, \<open>ne\<close>, \<open>gt\<close>, \<open>gte\<close>, \<open>lt\<close>, \<open>lte\<close>, \<open>in\<close> is
  mapped to its comparison, and any other operator, or none, to \<open>Equal\<close>. The
  function has no failing branch: its result is always a list of predicates, the empty
  list for a missing filter object.
\<close>

theorem processSelectiveFilters_compiles:
  "processSelectiveFilters None allowed = []
   \<and> processSelectiveFilters (Some entries) allowed =
       map (\<lambda>(k, v). (fieldOf k, mapFilterOperatorTypeorm (operatorOf k) v))
         (filter (\<lambda>(k, v). fieldOf k \<in> set allowed) entries)
   \<and> mapFilterOperatorTypeorm (Some ''eq'') v = Equal v
   \<and> mapFilterOperatorTypeorm (Some ''ne'') v = Not_op v
   \<and> mapFilterOperatorTypeorm (Some ''gt'') v = MoreThan v
   \<and> mapFilterOperatorTypeorm (Some ''gte'') v = MoreThanOrEqual v
   \<and> mapFilterOperatorTypeorm (Some ''lt'') v = LessThan v
   \<and> mapFilterOperatorTypeorm (Some ''lte'') v = LessThanOrEqual v
   \<and> mapFilterOperatorTypeorm (Some ''in'') v = In v
   \<and> (operator \<notin> {Some ''eq'', Some ''ne'', Some ''gt'', Some ''gte'', Some ''lt'', Some ''lte'', Some ''in''}
        \<longrightarrow> mapFilterOperatorTypeorm operator v = Equal v)"
  by (simp add: processSelectiveFilters_def processSelectiveFilters_loop_eq mapFilterOperatorTypeorm_def)

theorem processSelectiveFilters_compiles_witness:
  "processSelectiveFilters
       (Some [(''price_gte'', 1::int), (''foo_eq'', 2), (''price_lte'', 5), (''supply_zz'', 3), (''supply'', 4)])
       generativeFiltersDbFields =
     [(''price'', MoreThanOrEqual 1), (''price'', LessThanOrEqual 5), (''supply'', Equal 3), (''supply'', Equal 4)]
   \<and> Some ''zz'' \<notin> {Some ''eq'', Some ''ne'', Some ''gt'', Some ''gte'', Some ''lt'', Some ''lte'', Some ''in''}
   \<and> mapFilterOperatorTypeorm (Some ''zz'') (3::int) = Equal 3"
  using processSelectiveFilters_compiles
    [of generativeFiltersDbFields
        "[(''price_gte'', 1::int), (''foo_eq'', 2), (''price_lte'', 5), (''supply_zz'', 3), (''supply'', 4)]"
        3 "Some ''zz''"]
  by (auto simp add: generativeFiltersDbFields_def fieldOf_def operatorOf_def mapFilterOperatorTypeorm_def)

text \<open>
  Claim C9. In the object \<^verbatim>\<open>processFilters\<close> returns, a field holds the predicate
  of the last key of the filter object (in enumeration order) that targets the field:
  with \<open>price_gte\<close> before \<open>price_lte\<close>, only the predicate of \<open>price_lte\<close> is
  kept. \<^verbatim>\<open>processSelectiveFilters\<close> keeps, for an allowed field, the predicates of
  all the keys that target it, in their order.
\<close>

theorem processFilters_last_key_wins:
  "processFilters (Some entries) f =
     (case List.find (\<lambda>(k, v). fieldOf k = f) (rev entries) of
        None \<Rightarrow> None
      | Some (k, v) \<Rightarrow> Some (mapFilterOperatorTypeorm (operatorOf k) v))
   \<and> (f \<in> set allowed \<longrightarrow>
        filter (\<lambda>(g, p). g = f) (processSelectiveFilters (Some entries) allowed) =
          map (\<lambda>(k, v). (f, mapFilterOperatorTypeorm (operatorOf k) v))
            (filter (\<lambda>(k, v). fieldOf k = f) entries))"
proof -
  have sel: "f \<in> set allowed \<Longrightarrow>
      filter (\<lambda>(g, p). g = f)
        (map (\<lambda>(k, v). (fieldOf k, mapFilterOperatorTypeorm (operatorOf k) v))
           (filter (\<lambda>(k, v). fieldOf k \<in> set allowed) es)) =
      map (\<lambda>(k, v). (f, mapFilterOperatorTypeorm (operatorOf k) v))
        (filter (\<lambda>(k, v). fieldOf k = f) es)" for es :: "(string \<times> 'a) list"
    by (induction es) auto
  show ?thesis
    by (simp add: processFilters_def processFilters_loop_eq processSelectiveFilters_def
        processSelectiveFilters_loop_eq sel)
qed

theorem processFilters_last_key_wins_witness:
  "processFilters (Some [(''price_gte'', 10::int), (''price_lte'', 20)]) ''price'' = Some (LessThanOrEqual 20)
   \<and> ''price'' \<in> set offerFiltersDbFields
   \<and> filter (\<lambda>(g, p). g = ''price'')
         (processSelectiveFilters (Some [(''price_gte'', 10::int), (''price_lte'', 20)]) offerFiltersDbFields) =
       [(''price'', MoreThanOrEqual 10), (''price'', LessThanOrEqual 20)]"
  using processFilters_last_key_wins
    [of "[(''price_gte'', 10::int), (''price_lte'', 20)]" "''price''" offerFiltersDbFields]
  by (auto simp add: offerFiltersDbFields_def fieldOf_def operatorOf_def mapFilterOperatorTypeorm_def)

section \<open>Batch functions over ids\<close>
























section \<open>Composite keys: feature filters and the shape of a batch\<close>








text \<open>
  Claim C2, as stated: each key of a batch gets the result of its own shape, which
  is the result it gets when loaded alone. It fails: the second key below asks for
  the histories between 0 and 100 and has one, but in a batch behind a key that asks
  for the histories between 0 and 10 it gets none.
\<close>

theorem own_shape_counterexample:
  "batchGenTokMarketStatsHistory
       [\<lparr>hist_tokenId = 2, hist_from = 50, hist_to = 60, hist_floor = Some 7\<rparr>]
       [\<lparr>param_id = 1, param_from = 0, param_to = 10\<rparr>, \<lparr>param_id = 2, param_from = 0, param_to = 100\<rparr>]
     = Inr [[], []]
   \<and> batchGenTokMarketStatsHistory
       [\<lparr>hist_tokenId = 2, hist_from = 50, hist_to = 60, hist_floor = Some 7\<rparr>]
       [\<lparr>param_id = 2, param_from = 0, param_to = 100\<rparr>]
     = Inr [[\<lparr>hist_tokenId = 2, hist_from = 50, hist_to = 60, hist_floor = Some 7\<rparr>]]"
  by (simp add: batchGenTokMarketStatsHistory_def histQuery_def)

lemma hist_single:
  "filter (\<lambda>h. hist_tokenId h = v) (histQuery histTable ids from to) =
     (if v \<in> set ids then histQuery histTable [v] from to else [])"
proof -
  let ?Q = "\<lambda>h. hist_tokenId h \<in> set ids \<and> hist_from h \<ge> from \<and> hist_to h < to"
  let ?Q1 = "\<lambda>h. hist_tokenId h \<in> set [v] \<and> hist_from h \<ge> from \<and> hist_to h < to"
  have rows: "filter (\<lambda>h. hist_tokenId h = v) (filter ?Q rows) =
      (if v \<in> set ids then filter ?Q1 rows else [])" for rows
    by (induction rows) auto
  have "filter (\<lambda>h. hist_tokenId h = v) (histQuery histTable ids from to) =
      sort_key hist_from (filter (\<lambda>h. hist_tokenId h = v) (filter ?Q histTable))"
    unfolding histQuery_def by (rule filter_sort)
  also have "\<dots> = (if v \<in> set ids then histQuery histTable [v] from to else [])"
    unfolding rows histQuery_def by simp
  finally show ?thesis .
qed

text \<open>
  Claim C2, amended. For a batch of composite keys that is not empty, one query is run
  under the filters, feature filters, sort and pagination (for the history loader: the
  date range) of the first key of the batch, and each key gets the rows of that query
  that belong to its id; of the other keys only the id is read. For the history
  loader, when all the keys of a batch carry the date range of the first, each key gets
  the result it gets when loaded alone.
\<close>

theorem batch_shape_of_first_key:
  "batchGenTokObjkt getMany (first # rest) =
     Inr (map (\<lambda>k. filter (\<lambda>objkt. objkt_issuerId objkt = key_id k)
                    (getMany (objktQuery first (map key_id (first # rest)))))
            (first # rest))
   \<and> (map key_id rest = map key_id rest' \<longrightarrow>
        batchGenTokObjkt getMany (first # rest) = batchGenTokObjkt getMany (first # rest')
      \<and> batchGenTokObjkt_v0 getMany (first # rest) = batchGenTokObjkt_v0 getMany (first # rest'))
   \<and> batchGenTokMarketStatsHistory histTable (p0 # ps) =
       Inr (map (\<lambda>p. filter (\<lambda>hist. hist_tokenId hist = param_id p)
                      (histQuery histTable (map param_id (p0 # ps)) (param_from p0) (param_to p0)))
              (p0 # ps))
   \<and> (map param_id ps = map param_id ps' \<longrightarrow>
        batchGenTokMarketStatsHistory histTable (p0 # ps) = batchGenTokMarketStatsHistory histTable (p0 # ps'))
   \<and> ((\<forall>p \<in> set ps. param_from p = param_from p0 \<and> param_to p = param_to p0) \<longrightarrow>
        map (\<lambda>p. batchGenTokMarketStatsHistory histTable [p]) (p0 # ps) =
          (case batchGenTokMarketStatsHistory histTable (p0 # ps) of
             Inl e \<Rightarrow> [] | Inr results \<Rightarrow> map (\<lambda>r. Inr [r]) results))"
proof -
  have a: "batchGenTokObjkt getMany (first # rest) =
     Inr (map (\<lambda>k. filter (\<lambda>objkt. objkt_issuerId objkt = key_id k)
                    (getMany (objktQuery first (map key_id (first # rest)))))
            (first # rest))"
    by (simp add: batchGenTokObjkt_def Let_def comp_def)
  have b: "map key_id rest = map key_id rest' \<Longrightarrow>
        batchGenTokObjkt getMany (first # rest) = batchGenTokObjkt getMany (first # rest')
      \<and> batchGenTokObjkt_v0 getMany (first # rest) = batchGenTokObjkt_v0 getMany (first # rest')"
    by (simp add: batchGenTokObjkt_def batchGenTokObjkt_v0_def Let_def split: option.splits)
  have c: "batchGenTokMarketStatsHistory histTable (p0 # ps) =
       Inr (map (\<lambda>p. filter (\<lambda>hist. hist_tokenId hist = param_id p)
                      (histQuery histTable (map param_id (p0 # ps)) (param_from p0) (param_to p0)))
              (p0 # ps))"
    by (simp add: batchGenTokMarketStatsHistory_def Let_def comp_def)
  have d: "map param_id ps = map param_id ps' \<Longrightarrow>
        batchGenTokMarketStatsHistory histTable (p0 # ps) = batchGenTokMarketStatsHistory histTable (p0 # ps')"
    by (simp add: batchGenTokMarketStatsHistory_def Let_def)
  have single: "batchGenTokMarketStatsHistory histTable [p] =
      Inr [histQuery histTable [param_id p] (param_from p) (param_to p)]" for p
    by (simp add: batchGenTokMarketStatsHistory_def Let_def hist_single)
  have e: "map (\<lambda>p. batchGenTokMarketStatsHistory histTable [p]) (p0 # ps) =
          (case batchGenTokMarketStatsHistory histTable (p0 # ps) of
             Inl e \<Rightarrow> [] | Inr results \<Rightarrow> map (\<lambda>r. Inr [r]) results)"
    if same: "\<forall>p \<in> set ps. param_from p = param_from p0 \<and> param_to p = param_to p0"
    using same by (simp add: c single hist_single comp_def)
  from a b c d e show ?thesis by blast
qed

theorem batch_shape_of_first_key_witness:
  "map key_id [example_key 2] = map key_id [(example_key 2)\<lparr>key_take := Some 1\<rparr>]
   \<and> batchGenTokObjkt example_getMany [example_key 1, example_key 2] =
       batchGenTokObjkt example_getMany [example_key 1, (example_key 2)\<lparr>key_take := Some 1\<rparr>]
   \<and> batchGenTokMarketStatsHistory example_hists
         [\<lparr>param_id = 1, param_from = 0, param_to = 100\<rparr>, \<lparr>param_id = 2, param_from = 0, param_to = 100\<rparr>] =
       batchGenTokMarketStatsHistory example_hists
         [\<lparr>param_id = 1, param_from = 0, param_to = 100\<rparr>, \<lparr>param_id = 2, param_from = 50, param_to = 60\<rparr>]
   \<and> map (\<lambda>p. batchGenTokMarketStatsHistory example_hists [p])
         [\<lparr>param_id = 1, param_from = 0, param_to = 100\<rparr>, \<lparr>param_id = 2, param_from = 0, param_to = 100\<rparr>] =
       [Inr [[\<lparr>hist_tokenId = 1, hist_from = 3, hist_to = 5, hist_floor = None\<rparr>]],
        Inr [[\<lparr>hist_tokenId = 2, hist_from = 50, hist_to = 60, hist_floor = Some 7\<rparr>]]]"
proof -
  note t = batch_shape_of_first_key
    [where getMany = example_getMany and first = "example_key 1" and rest = "[example_key 2]"
       and rest' = "[(example_key 2)\<lparr>key_take := Some 1\<rparr>]"
       and histTable = example_hists
       and ?p0.0 = "\<lparr>param_id = 1, param_from = 0, param_to = 100\<rparr>"
       and ps = "[\<lparr>param_id = 2, param_from = 0, param_to = 100\<rparr>]"
       and ps' = "[\<lparr>param_id = 2, param_from = 50, param_to = 60\<rparr>]"]
  have ids: "map key_id [example_key 2] = map key_id [(example_key 2)\<lparr>key_take := Some 1\<rparr>]"
    by (simp add: example_key_def)
  have pids: "map param_id [\<lparr>param_id = 2, param_from = 0, param_to = 100\<rparr>] =
      map param_id [\<lparr>param_id = 2, param_from = 50, param_to = 60\<rparr>]"
    by simp
  have same: "\<forall>p \<in> set [\<lparr>param_id = 2, param_from = 0, param_to = 100\<rparr>].
      param_from p = param_from \<lparr>param_id = 1, param_from = 0, param_to = 100\<rparr>
      \<and> param_to p = param_to \<lparr>param_id = 1, param_from = 0, param_to = 100\<rparr>"
    by simp
  have whole: "batchGenTokMarketStatsHistory example_hists
         [\<lparr>param_id = 1, param_from = 0, param_to = 100\<rparr>, \<lparr>param_id = 2, param_from = 0, param_to = 100\<rparr>] =
       Inr [[\<lparr>hist_tokenId = 1, hist_from = 3, hist_to = 5, hist_floor = None\<rparr>],
            [\<lparr>hist_tokenId = 2, hist_from = 50, hist_to = 60, hist_floor = Some 7\<rparr>]]"
    by (simp add: batchGenTokMarketStatsHistory_def histQuery_def example_hists_def)
  from t ids have a: "batchGenTokObjkt example_getMany [example_key 1, example_key 2] =
       batchGenTokObjkt example_getMany [example_key 1, (example_key 2)\<lparr>key_take := Some 1\<rparr>]"
    by blast
  from t pids have b: "batchGenTokMarketStatsHistory example_hists
         [\<lparr>param_id = 1, param_from = 0, param_to = 100\<rparr>, \<lparr>param_id = 2, param_from = 0, param_to = 100\<rparr>] =
       batchGenTokMarketStatsHistory example_hists
         [\<lparr>param_id = 1, param_from = 0, param_to = 100\<rparr>, \<lparr>param_id = 2, param_from = 50, param_to = 60\<rparr>]"
    by blast
  from t same have "map (\<lambda>p. batchGenTokMarketStatsHistory example_hists [p])
         [\<lparr>param_id = 1, param_from = 0, param_to = 100\<rparr>, \<lparr>param_id = 2, param_from = 0, param_to = 100\<rparr>] =
       (case batchGenTokMarketStatsHistory example_hists
         [\<lparr>param_id = 1, param_from = 0, param_to = 100\<rparr>, \<lparr>param_id = 2, param_from = 0, param_to = 100\<rparr>] of
         Inl e \<Rightarrow> [] | Inr results \<Rightarrow> map (\<lambda>r. Inr [r]) results)"
    by blast
  then have c: "map (\<lambda>p. batchGenTokMarketStatsHistory example_hists [p])
         [\<lparr>param_id = 1, param_from = 0, param_to = 100\<rparr>, \<lparr>param_id = 2, param_from = 0, param_to = 100\<rparr>] =
       [Inr [[\<lparr>hist_tokenId = 1, hist_from = 3, hist_to = 5, hist_floor = None\<rparr>]],
        Inr [[\<lparr>hist_tokenId = 2, hist_from = 50, hist_to = 60, hist_floor = Some 7\<rparr>]]]"
    unfolding whole by simp
  from ids a b c show ?thesis by blast
qed

section \<open>The market statistics cache\<close>

subsection \<open>The two loops\<close>

lemma partition_loop_fst:
  "x \<in> set (fst (partition_loop stats now ids (c, r))) \<longleftrightarrow>
     x \<in> set c \<or>
     (\<exists>tid \<in> set ids. List.find (\<lambda>s. ms_tokenId s = tid) stats = Some x
        \<and> \<not> (ms_requiresUpdate x \<or> now - ms_updatedAt x > 3600000))"
  by (induction ids arbitrary: c r) (auto split: option.splits)

lemma partition_loop_snd:
  "x \<in> set (snd (partition_loop stats now ids (c, r))) \<longleftrightarrow>
     x \<in> set r \<or>
     (\<exists>tid \<in> set ids.
        (List.find (\<lambda>s. ms_tokenId s = tid) stats = None
           \<and> x = new_MarketStats\<lparr>ms_id := tid, ms_tokenId := tid, ms_requiresUpdate := True\<rparr>)
      \<or> (List.find (\<lambda>s. ms_tokenId s = tid) stats = Some x
           \<and> (ms_requiresUpdate x \<or> now - ms_updatedAt x > 3600000)))"
  by (induction ids arbitrary: c r) (auto split: option.splits)

lemma recompute_loop_eq:
  "recompute_loop computeStats actions lastDay recompute (computed, calls) =
     (computed @ map (recomputeStat computeStats actions lastDay) recompute,
      calls @ map (\<lambda>stat. SaveStats (recomputeStat computeStats actions lastDay stat)) recompute)"
  by (induction recompute arbitrary: computed calls) (auto simp: Let_def)

lemma recomputeStat_tokenId [simp]:
  "ms_tokenId (recomputeStat computeStats actions lastDay stat) = ms_tokenId stat"
  by (simp add: recomputeStat_def Let_def split: option.splits)

lemma batch_fst:
  fixes store now now2 genIds
  defines "part \<equiv> partition_loop (filter (\<lambda>s. ms_tokenId s \<in> set genIds) (marketStatsTable store)) now genIds ([], [])"
  shows "fst (batchGenTokMarketStats store now now2 genIds) =
     map (\<lambda>tid. List.find (\<lambda>stat. ms_tokenId stat = tid)
            (fst part @
             map (recomputeStat
                    (computeStatsQuery (objktTable store) (map ms_tokenId (snd part)))
                    (actionsQuery (actionTable store) genIds [OFFER_ACCEPTED, MINTED_FROM])
                    (now2 - 24 * 3600 * 1000))
                 (snd part)))
         genIds"
  by (cases "snd part")
     (simp_all add: batchGenTokMarketStats_def Let_def recompute_loop_eq part_def)

lemma batch_snd:
  fixes store now now2 genIds
  defines "part \<equiv> partition_loop (filter (\<lambda>s. ms_tokenId s \<in> set genIds) (marketStatsTable store)) now genIds ([], [])"
  shows "snd (batchGenTokMarketStats store now now2 genIds) =
     (if snd part = [] then [FindMarketStats genIds]
      else [FindMarketStats genIds,
            AggregateOffers (map ms_tokenId (snd part)),
            FetchActions genIds [OFFER_ACCEPTED, MINTED_FROM]] @
           map (\<lambda>stat. SaveStats
                  (recomputeStat
                    (computeStatsQuery (objktTable store) (map ms_tokenId (snd part)))
                    (actionsQuery (actionTable store) genIds [OFFER_ACCEPTED, MINTED_FROM])
                    (now2 - 24 * 3600 * 1000) stat))
               (snd part))"
  by (cases "snd part")
     (simp_all add: batchGenTokMarketStats_def Let_def recompute_loop_eq part_def)

subsection \<open>The record returned for an id\<close>

lemma computed_find_fresh:
  assumes tid: "tid \<in> set genIds"
    and found: "List.find (\<lambda>s. ms_tokenId s = tid) stats = Some stat"
    and fresh: "\<not> (ms_requiresUpdate stat \<or> now - ms_updatedAt stat > 3600000)"
  shows "List.find (\<lambda>s. ms_tokenId s = tid) (fst (partition_loop stats now genIds ([], [])) @ others) = Some stat"
proof -
  have tok: "ms_tokenId stat = tid"
    using find_SomeD [OF found] by simp
  have mem: "stat \<in> set (fst (partition_loop stats now genIds ([], [])))"
    unfolding partition_loop_fst using tid found fresh by blast
  have uniq: "x = stat"
    if "x \<in> set (fst (partition_loop stats now genIds ([], [])))" "ms_tokenId x = tid" for x
  proof -
    from that(1) obtain t where t: "List.find (\<lambda>s. ms_tokenId s = t) stats = Some x"
      unfolding partition_loop_fst by auto
    from find_SomeD [OF t] that(2) have "t = tid" by simp
    with t found show ?thesis by simp
  qed
  have "List.find (\<lambda>s. ms_tokenId s = tid) (fst (partition_loop stats now genIds ([], []))) = Some stat"
    using mem tok uniq by (rule find_unique)
  then show ?thesis by (simp add: find_append_case)
qed

lemma computed_find_stale:
  assumes tid: "tid \<in> set genIds"
    and stale: "case List.find (\<lambda>s. ms_tokenId s = tid) stats of
                  None \<Rightarrow> True
                | Some stat \<Rightarrow> ms_requiresUpdate stat \<or> now - ms_updatedAt stat > 3600000"
  shows "\<exists>y \<in> set (snd (partition_loop stats now genIds ([], []))).
           ms_tokenId y = tid
           \<and> List.find (\<lambda>s. ms_tokenId s = tid)
               (fst (partition_loop stats now genIds ([], [])) @
                map (recomputeStat computeStats actions lastDay) (snd (partition_loop stats now genIds ([], []))))
             = Some (recomputeStat computeStats actions lastDay y)"
proof -
  let ?c = "fst (partition_loop stats now genIds ([], []))"
  let ?r = "snd (partition_loop stats now genIds ([], []))"
  have none: "List.find (\<lambda>s. ms_tokenId s = tid) ?c = None"
  proof -
    have "x \<in> set ?c \<Longrightarrow> ms_tokenId x \<noteq> tid" for x
    proof
      assume x: "x \<in> set ?c" and eq: "ms_tokenId x = tid"
      from x obtain t where t: "List.find (\<lambda>s. ms_tokenId s = t) stats = Some x"
        and fr: "\<not> (ms_requiresUpdate x \<or> now - ms_updatedAt x > 3600000)"
        unfolding partition_loop_fst by auto
      from find_SomeD [OF t] eq have "t = tid" by simp
      with t stale fr show False by simp
    qed
    then show ?thesis by (auto simp: find_None_iff)
  qed
  have ex: "\<exists>y \<in> set ?r. ms_tokenId y = tid"
  proof (cases "List.find (\<lambda>s. ms_tokenId s = tid) stats")
    case None
    have "ms_tokenId (new_MarketStats\<lparr>ms_id := tid, ms_tokenId := tid, ms_requiresUpdate := True\<rparr>) = tid"
      by simp
    moreover from None tid
    have "new_MarketStats\<lparr>ms_id := tid, ms_tokenId := tid, ms_requiresUpdate := True\<rparr> \<in> set ?r"
      unfolding partition_loop_snd by blast
    ultimately show ?thesis by (rule_tac bexI)
  next
    case (Some x)
    with stale have st: "ms_requiresUpdate x \<or> now - ms_updatedAt x > 3600000" by simp
    from Some st tid have "x \<in> set ?r"
      unfolding partition_loop_snd by blast
    moreover from find_SomeD [OF Some] have "ms_tokenId x = tid" by simp
    ultimately show ?thesis by blast
  qed
  then obtain y where y: "List.find (\<lambda>s. ms_tokenId s = tid) ?r = Some y"
    using find_exists [of _ ?r "\<lambda>s. ms_tokenId s = tid"] by blast
  from find_SomeD [OF y] have "y \<in> set ?r" "ms_tokenId y = tid" by simp_all
  moreover have "List.find (\<lambda>s. ms_tokenId s = tid)
               (?c @ map (recomputeStat computeStats actions lastDay) ?r)
             = Some (recomputeStat computeStats actions lastDay y)"
    by (simp add: find_append_case none find_map_option y)
  ultimately show ?thesis by blast
qed

text \<open>
  Claim C1. For every list of token ids, \<^verbatim>\<open>batchGenTokMarketStats\<close> returns a
  list of the same length whose entry at each position is a record of the id at that
  position, whether the id had a fresh record, a stale one or none. The calls to the
  store are taken to succeed.
\<close>

theorem getStats_one_entry_per_id:
  "length (fst (batchGenTokMarketStats store now now2 genIds)) = length genIds
   \<and> (\<forall>i < length genIds.
        \<exists>stat. fst (batchGenTokMarketStats store now now2 genIds) ! i = Some stat
               \<and> ms_tokenId stat = genIds ! i)"
proof -
  let ?stats = "filter (\<lambda>s. ms_tokenId s \<in> set genIds) (marketStatsTable store)"
  have len: "length (fst (batchGenTokMarketStats store now now2 genIds)) = length genIds"
    by (simp add: batch_fst)
  have pos: "\<exists>stat. fst (batchGenTokMarketStats store now now2 genIds) ! i = Some stat
               \<and> ms_tokenId stat = genIds ! i" if i: "i < length genIds" for i
  proof -
    let ?tid = "genIds ! i"
    from i have tid: "?tid \<in> set genIds" by simp
    show ?thesis
    proof (cases "case List.find (\<lambda>s. ms_tokenId s = ?tid) ?stats of
                  None \<Rightarrow> True
                | Some stat \<Rightarrow> ms_requiresUpdate stat \<or> now - ms_updatedAt stat > 3600000")
      case True
      from computed_find_stale [OF tid True] i show ?thesis
        by (fastforce simp: batch_fst)
    next
      case False
      then obtain stat where found: "List.find (\<lambda>s. ms_tokenId s = ?tid) ?stats = Some stat"
        and fresh: "\<not> (ms_requiresUpdate stat \<or> now - ms_updatedAt stat > 3600000)"
        by (auto split: option.splits)
      from find_SomeD [OF found] have "ms_tokenId stat = ?tid" by simp
      with computed_find_fresh [OF tid found fresh] i show ?thesis
        by (simp add: batch_fst)
    qed
  qed
  from len pos show ?thesis by blast
qed

theorem getStats_one_entry_per_id_witness:
  "length (fst (batchGenTokMarketStats example_store 5000000 5000001 [1, 2, 3])) = 3
   \<and> (\<exists>stat. fst (batchGenTokMarketStats example_store 5000000 5000001 [1, 2, 3]) ! 0 = Some stat
              \<and> ms_tokenId stat = 1)
   \<and> (\<exists>stat. fst (batchGenTokMarketStats example_store 5000000 5000001 [1, 2, 3]) ! 1 = Some stat
              \<and> ms_tokenId stat = 2)
   \<and> (\<exists>stat. fst (batchGenTokMarketStats example_store 5000000 5000001 [1, 2, 3]) ! 2 = Some stat
              \<and> ms_tokenId stat = 3)"
proof -
  note t = getStats_one_entry_per_id [of example_store 5000000 5000001 "[1, 2, 3]"]
  from t have len: "length (fst (batchGenTokMarketStats example_store 5000000 5000001 [1, 2, 3])) = 3"
    by simp
  from t have all: "\<forall>i < length [1, 2, 3 :: int].
      \<exists>stat. fst (batchGenTokMarketStats example_store 5000000 5000001 [1, 2, 3]) ! i = Some stat
             \<and> ms_tokenId stat = [1, 2, 3] ! i"
    by blast
  from all [THEN spec, of 0] all [THEN spec, of 1] all [THEN spec, of 2] len
  show ?thesis by simp
qed

text \<open>
  Claim C5. A requested token whose record is there with \<^verbatim>\<open>requiresUpdate\<close> false
  and \<open>now - updatedAt\<close> of at most one hour (3600000 ms) is put among the computed
  records and not among those to recompute; its id is in no aggregate query over the
  offers; and the record returned for it is the one found in the store, unchanged.
\<close>

theorem fresh_token_not_recomputed:
  assumes row: "List.find (\<lambda>s. ms_tokenId s = tid) (marketStatsTable store) = Some stat"
    and clean: "\<not> ms_requiresUpdate stat"
    and young: "now - ms_updatedAt stat \<le> 3600000"
    and tid: "tid \<in> set genIds"
  shows "stat \<in> set (fst (partition_loop
                (filter (\<lambda>s. ms_tokenId s \<in> set genIds) (marketStatsTable store)) now genIds ([], [])))
     \<and> tid \<notin> ms_tokenId ` set (snd (partition_loop
                (filter (\<lambda>s. ms_tokenId s \<in> set genIds) (marketStatsTable store)) now genIds ([], [])))
     \<and> (\<forall>ids. AggregateOffers ids \<in> set (snd (batchGenTokMarketStats store now now2 genIds))
            \<longrightarrow> tid \<notin> set ids)
     \<and> (\<forall>i < length genIds. genIds ! i = tid
            \<longrightarrow> fst (batchGenTokMarketStats store now now2 genIds) ! i = Some stat)"
proof -
  let ?stats = "filter (\<lambda>s. ms_tokenId s \<in> set genIds) (marketStatsTable store)"
  let ?part = "partition_loop ?stats now genIds ([], [])"
  have found: "List.find (\<lambda>s. ms_tokenId s = tid) ?stats = Some stat"
    using row tid by (simp add: find_filter_implied)
  have fresh: "\<not> (ms_requiresUpdate stat \<or> now - ms_updatedAt stat > 3600000)"
    using clean young by simp
  have in_computed: "stat \<in> set (fst ?part)"
    unfolding partition_loop_fst using tid found fresh by blast
  have not_recompute: "tid \<notin> ms_tokenId ` set (snd ?part)"
  proof
    assume "tid \<in> ms_tokenId ` set (snd ?part)"
    then obtain y where y: "y \<in> set (snd ?part)" and ty: "ms_tokenId y = tid" by auto
    from y obtain t where t: "t \<in> set genIds"
      and alt: "(List.find (\<lambda>s. ms_tokenId s = t) ?stats = None
                  \<and> y = new_MarketStats\<lparr>ms_id := t, ms_tokenId := t, ms_requiresUpdate := True\<rparr>)
              \<or> (List.find (\<lambda>s. ms_tokenId s = t) ?stats = Some y
                  \<and> (ms_requiresUpdate y \<or> now - ms_updatedAt y > 3600000))"
      unfolding partition_loop_snd by auto
    from alt show False
    proof
      assume a: "List.find (\<lambda>s. ms_tokenId s = t) ?stats = None
                  \<and> y = new_MarketStats\<lparr>ms_id := t, ms_tokenId := t, ms_requiresUpdate := True\<rparr>"
      then have "ms_tokenId y = t" by simp
      with ty a found show False by simp
    next
      assume b: "List.find (\<lambda>s. ms_tokenId s = t) ?stats = Some y
                  \<and> (ms_requiresUpdate y \<or> now - ms_updatedAt y > 3600000)"
      then have "List.find (\<lambda>s. ms_tokenId s = t) ?stats = Some y" by simp
      from find_SomeD [OF this] ty have "t = tid" by simp
      with b found fresh show False by simp
    qed
  qed
  have aggregate: "tid \<notin> set ids"
    if "AggregateOffers ids \<in> set (snd (batchGenTokMarketStats store now now2 genIds))" for ids
  proof -
    from that have "ids = map ms_tokenId (snd ?part)"
      by (auto simp: batch_snd split: if_splits)
    with not_recompute show ?thesis by simp
  qed
  have returned: "fst (batchGenTokMarketStats store now now2 genIds) ! i = Some stat"
    if "i < length genIds" "genIds ! i = tid" for i
    using that computed_find_fresh [OF tid found fresh] by (simp add: batch_fst)
  from in_computed not_recompute aggregate returned show ?thesis by blast
qed

theorem fresh_token_not_recomputed_witness:
  "List.find (\<lambda>s. ms_tokenId s = 3) (marketStatsTable example_store) =
     Some (new_MarketStats\<lparr>ms_id := 3, ms_tokenId := 3, ms_updatedAt := 5000000\<rparr>)
   \<and> \<not> ms_requiresUpdate (new_MarketStats\<lparr>ms_id := 3, ms_tokenId := 3, ms_updatedAt := 5000000\<rparr>)
   \<and> 5000000 - ms_updatedAt (new_MarketStats\<lparr>ms_id := 3, ms_tokenId := 3, ms_updatedAt := 5000000\<rparr>) \<le> 3600000
   \<and> (3::int) \<in> set [1, 2, 3]
   \<and> 3 \<notin> ms_tokenId ` set (snd (partition_loop
              (filter (\<lambda>s. ms_tokenId s \<in> set [1, 2, 3]) (marketStatsTable example_store))
              5000000 [1, 2, 3] ([], [])))
   \<and> fst (batchGenTokMarketStats example_store 5000000 5000001 [1, 2, 3]) ! 2 =
       Some (new_MarketStats\<lparr>ms_id := 3, ms_tokenId := 3, ms_updatedAt := 5000000\<rparr>)"
proof -
  let ?stat = "new_MarketStats\<lparr>ms_id := 3, ms_tokenId := 3, ms_updatedAt := 5000000\<rparr>"
  have row: "List.find (\<lambda>s. ms_tokenId s = 3) (marketStatsTable example_store) = Some ?stat"
    by (simp add: example_store_def new_MarketStats_def)
  have clean: "\<not> ms_requiresUpdate ?stat"
    by (simp add: new_MarketStats_def)
  have young: "5000000 - ms_updatedAt ?stat \<le> 3600000"
    by simp
  have tid: "(3::int) \<in> set [1, 2, 3]"
    by simp
  note t = fresh_token_not_recomputed [OF row clean young tid, of 5000001]
  from t have out: "3 \<notin> ms_tokenId ` set (snd (partition_loop
              (filter (\<lambda>s. ms_tokenId s \<in> set [1, 2, 3]) (marketStatsTable example_store))
              5000000 [1, 2, 3] ([], [])))"
    by blast
  from t have "\<forall>i < length [1, 2, 3 :: int]. [1, 2, 3] ! i = (3::int)
      \<longrightarrow> fst (batchGenTokMarketStats example_store 5000000 5000001 [1, 2, 3]) ! i = Some ?stat"
    by blast
  from this [THEN spec, of 2]
  have ret: "fst (batchGenTokMarketStats example_store 5000000 5000001 [1, 2, 3]) ! 2 = Some ?stat"
    by simp
  from row clean young tid out ret show ?thesis by blast
qed

subsection \<open>Highest and lowest sale\<close>

lemma foldl_highest_zero:
  "\<forall>a \<in> set sales. act_price a = 0 \<Longrightarrow>
     foldl (\<lambda>acc act. if act_price act > acc then act_price act else acc) 0 sales = 0"
  by (induction sales) simp_all

lemma foldl_lowest_zero:
  "\<forall>a \<in> set sales. act_price a = 0 \<Longrightarrow>
     foldl (\<lambda>acc act. if act_price act < acc then act_price act else acc) 0 sales = 0"
  by (induction sales) simp_all

lemma foldl_lowest_zero_from:
  "sales \<noteq> [] \<Longrightarrow> \<forall>a \<in> set sales. act_price a = 0 \<Longrightarrow>
     foldl (\<lambda>acc act. if act_price act < acc then act_price act else acc) 9999999999999 sales = 0"
  by (cases sales) (simp_all add: foldl_lowest_zero)

lemma sales_of_token:
  "tid \<in> set genIds \<Longrightarrow>
     filter (\<lambda>act. act_type act = OFFER_ACCEPTED)
       (filter (\<lambda>act. act_tokenId act = tid)
          (actionsQuery actions genIds [OFFER_ACCEPTED, MINTED_FROM])) =
     filter (\<lambda>a. act_tokenId a = tid \<and> act_type a = OFFER_ACCEPTED) actions"
  unfolding actionsQuery_def by (induction actions) auto

lemma recomputeStat_sold:
  "ms_highestSold (recomputeStat computeStats actions lastDay stat) =
     (let sales = filter (\<lambda>act. act_type act = OFFER_ACCEPTED)
                    (filter (\<lambda>act. act_tokenId act = ms_tokenId stat) actions);
          highest = foldl (\<lambda>acc act. if act_price act > acc then act_price act else acc) 0 sales
      in if highest = 0 then None else Some highest)"
  "ms_lowestSold (recomputeStat computeStats actions lastDay stat) =
     (let sales = filter (\<lambda>act. act_type act = OFFER_ACCEPTED)
                    (filter (\<lambda>act. act_tokenId act = ms_tokenId stat) actions);
          lowest = foldl (\<lambda>acc act. if act_price act < acc then act_price act else acc) 9999999999999 sales
      in if lowest = 9999999999999 then None else Some lowest)"
  by (simp_all add: recomputeStat_def Let_def split: option.splits)

text \<open>
  Claim C10. For a requested token that is recomputed (no record, or a record that
  requires an update or is older than one hour) and has sale-settled
  (\<^verbatim>\<open>OFFER_ACCEPTED\<close>) actions, all of price 0, the record returned has
  \<^verbatim>\<open>highestSold\<close> null, since \<^verbatim>\<open>0 || null\<close> is null, and
  \<^verbatim>\<open>lowestSold\<close> 0.
\<close>

theorem zero_priced_sales_highest_null_lowest_zero:
  assumes tid: "tid \<in> set genIds"
    and stale: "case List.find (\<lambda>s. ms_tokenId s = tid) (marketStatsTable store) of
                  None \<Rightarrow> True
                | Some stat \<Rightarrow> ms_requiresUpdate stat \<or> now - ms_updatedAt stat > 3600000"
    and some: "filter (\<lambda>a. act_tokenId a = tid \<and> act_type a = OFFER_ACCEPTED) (actionTable store) \<noteq> []"
    and zero: "\<forall>a \<in> set (filter (\<lambda>a. act_tokenId a = tid \<and> act_type a = OFFER_ACCEPTED) (actionTable store)).
                 act_price a = 0"
  shows "\<forall>i < length genIds. genIds ! i = tid \<longrightarrow>
           (\<exists>stat. fst (batchGenTokMarketStats store now now2 genIds) ! i = Some stat
                    \<and> ms_tokenId stat = tid
                    \<and> ms_highestSold stat = None
                    \<and> ms_lowestSold stat = Some 0)"
proof -
  let ?stats = "filter (\<lambda>s. ms_tokenId s \<in> set genIds) (marketStatsTable store)"
  let ?part = "partition_loop ?stats now genIds ([], [])"
  let ?cs = "computeStatsQuery (objktTable store) (map ms_tokenId (snd ?part))"
  let ?acts = "actionsQuery (actionTable store) genIds [OFFER_ACCEPTED, MINTED_FROM]"
  let ?ld = "now2 - 24 * 3600 * 1000"
  have stale': "case List.find (\<lambda>s. ms_tokenId s = tid) ?stats of
                  None \<Rightarrow> True
                | Some stat \<Rightarrow> ms_requiresUpdate stat \<or> now - ms_updatedAt stat > 3600000"
    using stale tid by (simp add: find_filter_implied)
  from computed_find_stale [OF tid stale', of ?cs ?acts ?ld]
  obtain y where ty: "ms_tokenId y = tid"
    and res: "List.find (\<lambda>s. ms_tokenId s = tid) (fst ?part @ map (recomputeStat ?cs ?acts ?ld) (snd ?part))
              = Some (recomputeStat ?cs ?acts ?ld y)"
    by blast
  have sales: "filter (\<lambda>act. act_type act = OFFER_ACCEPTED)
                 (filter (\<lambda>act. act_tokenId act = ms_tokenId y) ?acts) =
               filter (\<lambda>a. act_tokenId a = tid \<and> act_type a = OFFER_ACCEPTED) (actionTable store)"
    unfolding ty by (rule sales_of_token [OF tid])
  have hi: "ms_highestSold (recomputeStat ?cs ?acts ?ld y) = None"
    unfolding recomputeStat_sold(1) sales Let_def foldl_highest_zero [OF zero] by simp
  have lo: "ms_lowestSold (recomputeStat ?cs ?acts ?ld y) = Some 0"
    unfolding recomputeStat_sold(2) sales Let_def foldl_lowest_zero_from [OF some zero] by simp
  have "fst (batchGenTokMarketStats store now now2 genIds) ! i = Some (recomputeStat ?cs ?acts ?ld y)"
    if "i < length genIds" "genIds ! i = tid" for i
    using that res by (simp add: batch_fst)
  with hi lo ty show ?thesis by simp
qed

theorem zero_priced_sales_highest_null_lowest_zero_witness:
  "(2::int) \<in> set [1, 2, 3]
   \<and> List.find (\<lambda>s. ms_tokenId s = 2) (marketStatsTable example_store) = None
   \<and> filter (\<lambda>a. act_tokenId a = 2 \<and> act_type a = OFFER_ACCEPTED) (actionTable example_store) =
       [\<lparr>act_tokenId = 2, act_type = OFFER_ACCEPTED, act_price = 0, act_createdAt = 4999000\<rparr>]
   \<and> (\<exists>stat. fst (batchGenTokMarketStats example_store 5000000 5000001 [1, 2, 3]) ! 1 = Some stat
              \<and> ms_tokenId stat = 2 \<and> ms_highestSold stat = None \<and> ms_lowestSold stat = Some 0)"
proof -
  have tid: "(2::int) \<in> set [1, 2, 3]"
    by simp
  have none: "List.find (\<lambda>s. ms_tokenId s = 2) (marketStatsTable example_store) = None"
    by (simp add: example_store_def new_MarketStats_def)
  then have stale: "case List.find (\<lambda>s. ms_tokenId s = 2) (marketStatsTable example_store) of
                  None \<Rightarrow> True
                | Some stat \<Rightarrow> ms_requiresUpdate stat \<or> 5000000 - ms_updatedAt stat > 3600000"
    by simp
  have sales: "filter (\<lambda>a. act_tokenId a = 2 \<and> act_type a = OFFER_ACCEPTED) (actionTable example_store) =
       [\<lparr>act_tokenId = 2, act_type = OFFER_ACCEPTED, act_price = 0, act_createdAt = 4999000\<rparr>]"
    by (simp add: example_store_def)
  have some: "filter (\<lambda>a. act_tokenId a = 2 \<and> act_type a = OFFER_ACCEPTED) (actionTable example_store) \<noteq> []"
    unfolding sales by simp
  have zero: "\<forall>a \<in> set (filter (\<lambda>a. act_tokenId a = 2 \<and> act_type a = OFFER_ACCEPTED) (actionTable example_store)).
                 act_price a = 0"
    unfolding sales by simp
  note t = zero_priced_sales_highest_null_lowest_zero [OF tid stale some zero, of 5000001]
  from t [THEN spec, of 1]
  have "\<exists>stat. fst (batchGenTokMarketStats example_store 5000000 5000001 [1, 2, 3]) ! 1 = Some stat
              \<and> ms_tokenId stat = 2 \<and> ms_highestSold stat = None \<and> ms_lowestSold stat = Some 0"
    by simp
  with tid none sales show ?thesis by blast
qed

subsection \<open>The queries of a recompute pass on the example store\<close>

text \<open>
  Claim C3. The claim has the query for the sale and mint actions restricted to the
  stale ids. On the example store, for the request of the tokens 2 and 3, token 3 is
  fresh (it is the one computed record) and token 2 is to recompute: the aggregate
  query over the offers is restricted to the id 2, but the query for the actions of
  types \<^verbatim>\<open>OFFER_ACCEPTED\<close> and \<^verbatim>\<open>MINTED_FROM\<close> is made with all the
  requested ids, the fresh id 3 among them.
\<close>

theorem actions_query_covers_fresh_ids:
  "fst (partition_loop (filter (\<lambda>s. ms_tokenId s \<in> set [2, 3]) (marketStatsTable example_store))
          5000000 [2, 3] ([], [])) =
     [new_MarketStats\<lparr>ms_id := 3, ms_tokenId := 3, ms_updatedAt := 5000000\<rparr>]
   \<and> take 3 (snd (batchGenTokMarketStats example_store 5000000 5000001 [2, 3])) =
       [FindMarketStats [2, 3], AggregateOffers [2], FetchActions [2, 3] [OFFER_ACCEPTED, MINTED_FROM]]"
  by code_simp

text \<open>
  Claim C4. The claim has floor and median null and the listing count 0 for a
  recomputed token without offers and without sales. On the example store, token 1 has
  no offer and no action, and its record, marked for update, holds the statistics of a
  former listing: the aggregate query has no row for the token, the loader then leaves
  \<^verbatim>\<open>floor\<close>, \<^verbatim>\<open>median\<close> and \<^verbatim>\<open>totalListing\<close> as they were, and the
  record returned has floor 100, median 100 and one listing. The values derived from
  the actions are as the claim has them.
\<close>

theorem stale_listing_statistics_kept:
  "offerPricesOf (objktTable example_store) 1 = []
   \<and> filter (\<lambda>a. act_tokenId a = 1) (actionTable example_store) = []
   \<and> fst (batchGenTokMarketStats example_store 5000000 5000001 [1]) =
       [Some \<lparr>ms_id = 1, ms_tokenId = 1, ms_floor = Some 100, ms_median = Some 100,
              ms_totalListing = 1, ms_highestSold = None, ms_lowestSold = None,
              ms_primTotal = 0, ms_secVolumeTz = 0, ms_secVolumeNb = 0,
              ms_secVolumeTz24 = 0, ms_secVolumeNb24 = 0,
              ms_requiresUpdate = False, ms_updatedAt = 0\<rparr>]"
  by code_simp

end
